theory Spec2Isabelle
  imports Complex_Main
begin

section \<open>The training pipeline of \<^verbatim>\<open>src/train.py\<close>\<close>

text \<open>
  The script is glue code: five stage functions and a driver, each a short sequence of
  calls into scikit-learn, the Python runtime and the operating system. The embedding
  keeps that shape. Every stage is a function on an explicit \<open>world\<close> (what the process
  can observe or change) that returns either the exception it raised or its value; the
  library, runtime and operating system are one record of parameters, \<open>env\<close>, whose fields
  carry the names of the functions the script calls.
\<close>

subsection \<open>Values\<close>

text \<open>
  A numpy float is a finite number or one of the three special values. Finite values are
  kept exact (rationals); no statement below depends on rounding.
\<close>

datatype pyfloat = Finite rat | PosInf | NegInf | NaN

type_synonym matrix = "pyfloat list list"

type_synonym labels = "int list"

text \<open>Exceptions derived from Python's \<open>Exception\<close>: the class and the message.\<close>

datatype exc_class = ValueError | TypeError | OSError | MemoryError | NotFittedError | PicklingError

datatype pyexc = PyExc exc_class string

fun exc_str :: "pyexc \<Rightarrow> string" where
  "exc_str (PyExc c msg) = msg"

text \<open>\<open>str(n)\<close> for a Python integer.\<close>

fun str_nat :: "nat \<Rightarrow> string" where
  "str_nat n = (if n < 10 then [char_of (48 + n)] else str_nat (n div 10) @ [char_of (48 + n mod 10)])"

declare str_nat.simps [simp del]

definition str_int :: "int \<Rightarrow> string" where
  "str_int i = (if i < 0 then CHR ''-'' # str_nat (nat (- i)) else str_nat (nat i))"

subsection \<open>The world\<close>

datatype log_level = INFO | ERROR

datatype fs_op = Makedirs string | OpenW string | WriteData string string

datatype scaler_call = FitTransform matrix | Transform matrix

text \<open>
  \<open>logged\<close>: the records handed to the module's logger, oldest first.
  \<open>fs_ops\<close>: every operation the process performed on the file system, oldest first
  (directory creation, opening a file for writing, writing data to it).
  \<open>scaler_calls\<close>: the method calls made on \<open>StandardScaler\<close> objects, oldest first.
  \<open>clock_reads\<close>: how often \<open>datetime.now()\<close> has been called.
  \<open>np_random\<close>: the state of numpy's global random generator, which the library draws
  from when a call is given no seed.
\<close>

record world =
  logged :: "(log_level \<times> string) list"
  fs_ops :: "fs_op list"
  scaler_calls :: "scaler_call list"
  clock_reads :: nat
  np_random :: nat

type_synonym 'a py = "world \<Rightarrow> (pyexc + 'a) \<times> world"

definition py_return :: "'a \<Rightarrow> 'a py" where
  "py_return x w = (Inr x, w)"

text \<open>Sequencing: an exception ends the sequence, with the world as the raise left it.\<close>

definition py_bind :: "'a py \<Rightarrow> ('a \<Rightarrow> 'b py) \<Rightarrow> 'b py" where
  "py_bind m f w = (case m w of (Inl e, w') \<Rightarrow> (Inl e, w') | (Inr x, w') \<Rightarrow> f x w')"

text \<open>A call that cannot touch the world: it returns or raises.\<close>

definition py_pure :: "pyexc + 'a \<Rightarrow> 'a py" where
  "py_pure r w = (r, w)"

text \<open>
  A call that takes \<open>random_state\<close>: it is handed the global generator's state and returns
  the state it leaves behind.
\<close>

definition py_random :: "(nat \<Rightarrow> (pyexc + 'a) \<times> nat) \<Rightarrow> 'a py" where
  "py_random f w = (case f (np_random w) of (r, g) \<Rightarrow> (r, w\<lparr>np_random := g\<rparr>))"

subsection \<open>The library, the runtime and the operating system\<close>

record rf_params =
  n_estimators :: int
  max_depth :: int
  random_state :: "int option"
  n_jobs :: int

record 'r metrics =
  accuracy :: rat
  classification_report_of :: 'r
  timestamp :: string

datatype 's scaler = Unfitted | Fitted 's

text \<open>
  scikit-learn (\<open>'m\<close>: a fitted forest, \<open>'s\<close>: the statistics of a fitted scaler, \<open>'r\<close>: a
  classification report), then \<open>pickle\<close> and \<open>json\<close>, then \<open>datetime\<close> and float
  formatting, then the file system. \<open>make_classification n_samples n_features
  n_informative n_redundant random_state\<close>, \<open>train_test_split X y test_size
  random_state stratify\<close>. \<open>now_at k\<close> is what the \<open>k\<close>-th call of \<open>datetime.now()\<close>
  returns. \<open>makedirs_fails\<close>, \<open>open_fails\<close> and \<open>write_fails\<close> say, from the operations
  performed so far, whether the next operation on a path raises \<open>OSError\<close>.

  The library functions are taken to depend on their arguments and, where they accept
  \<open>random_state\<close>, on the global random generator, and on nothing else: they do not read
  the clock and perform no file-system operation of their own.
\<close>

record ('m, 's, 'r) env =
  make_classification :: "int \<Rightarrow> int \<Rightarrow> int \<Rightarrow> int \<Rightarrow> int option \<Rightarrow> nat \<Rightarrow> (pyexc + matrix \<times> labels) \<times> nat"
  train_test_split :: "matrix \<Rightarrow> labels \<Rightarrow> rat \<Rightarrow> int option \<Rightarrow> labels option \<Rightarrow> nat
    \<Rightarrow> (pyexc + matrix \<times> matrix \<times> labels \<times> labels) \<times> nat"
  fit_transform :: "matrix \<Rightarrow> pyexc + 's \<times> matrix"
  transform :: "'s \<Rightarrow> matrix \<Rightarrow> pyexc + matrix"
  rf_fit :: "rf_params \<Rightarrow> matrix \<Rightarrow> labels \<Rightarrow> nat \<Rightarrow> (pyexc + 'm) \<times> nat"
  predict :: "'m \<Rightarrow> matrix \<Rightarrow> pyexc + labels"
  accuracy_score :: "labels \<Rightarrow> labels \<Rightarrow> pyexc + rat"
  classification_report :: "labels \<Rightarrow> labels \<Rightarrow> pyexc + 'r"
  pickle_dumps_model :: "'m \<Rightarrow> pyexc + string"
  pickle_dumps_scaler :: "'s scaler \<Rightarrow> pyexc + string"
  json_dumps :: "'r metrics \<Rightarrow> pyexc + string"
  now_at :: "nat \<Rightarrow> nat"
  strftime :: "nat \<Rightarrow> string"
  isoformat :: "nat \<Rightarrow> string"
  format_4f :: "rat \<Rightarrow> string"
  script_file :: string
  makedirs_fails :: "fs_op list \<Rightarrow> string \<Rightarrow> bool"
  open_fails :: "fs_op list \<Rightarrow> string \<Rightarrow> bool"
  write_fails :: "fs_op list \<Rightarrow> string \<Rightarrow> bool"

subsection \<open>Runtime calls\<close>

definition logger_info :: "string \<Rightarrow> unit py" where
  "logger_info msg w = (Inr (), w\<lparr>logged := logged w @ [(INFO, msg)]\<rparr>)"

definition logger_error :: "string \<Rightarrow> unit py" where
  "logger_error msg w = (Inr (), w\<lparr>logged := logged w @ [(ERROR, msg)]\<rparr>)"

definition datetime_now :: "('m, 's, 'r) env \<Rightarrow> nat py" where
  "datetime_now E w = (Inr (now_at E (clock_reads w)), w\<lparr>clock_reads := Suc (clock_reads w)\<rparr>)"

text \<open>\<open>os.path.dirname\<close>, \<open>os.path.isabs\<close> and \<open>os.path.join\<close> (two arguments) of \<open>posixpath\<close>.\<close>

definition os_path_dirname :: "string \<Rightarrow> string" where
  "os_path_dirname p =
     (let head = rev (dropWhile (\<lambda>c. c \<noteq> CHR ''/'') (rev p))
      in if head \<noteq> [] \<and> \<not> list_all (\<lambda>c. c = CHR ''/'') head
         then rev (dropWhile (\<lambda>c. c = CHR ''/'') (rev head)) else head)"

definition os_path_isabs :: "string \<Rightarrow> bool" where
  "os_path_isabs s = (s \<noteq> [] \<and> hd s = CHR ''/'')"

definition os_path_join :: "string \<Rightarrow> string \<Rightarrow> string" where
  "os_path_join a b =
     (if os_path_isabs b then b
      else if a = [] \<or> last a = CHR ''/'' then a @ b
      else a @ ''/'' @ b)"

definition os_makedirs :: "('m, 's, 'r) env \<Rightarrow> string \<Rightarrow> unit py" where
  "os_makedirs E path w =
     (if makedirs_fails E (fs_ops w) path then (Inl (PyExc OSError path), w)
      else (Inr (), w\<lparr>fs_ops := fs_ops w @ [Makedirs path]\<rparr>))"

definition open_w :: "('m, 's, 'r) env \<Rightarrow> string \<Rightarrow> unit py" where
  "open_w E path w =
     (if open_fails E (fs_ops w) path then (Inl (PyExc OSError path), w)
      else (Inr (), w\<lparr>fs_ops := fs_ops w @ [OpenW path]\<rparr>))"

text \<open>
  \<open>pickle.dump(obj, f)\<close> and \<open>json.dump(obj, f, indent=2)\<close> on a file opened at \<open>path\<close>:
  the serialiser may raise, and so may the write.
\<close>

definition dump :: "('m, 's, 'r) env \<Rightarrow> pyexc + string \<Rightarrow> string \<Rightarrow> unit py" where
  "dump E serialised path w =
     (case serialised of
        Inl e \<Rightarrow> (Inl e, w)
      | Inr content \<Rightarrow>
          if write_fails E (fs_ops w) path then (Inl (PyExc OSError path), w)
          else (Inr (), w\<lparr>fs_ops := fs_ops w @ [WriteData path content]\<rparr>))"

subsection \<open>The stages\<close>

text \<open>
  \<^verbatim>\<open>create_synthetic_data(n_samples, n_features)\<close>: one log record, then
  \<^verbatim>\<open>make_classification(n_samples=n_samples, n_features=n_features, n_informative=15,
  n_redundant=5, random_state=42)\<close>, whose result is returned as it is.
\<close>

definition create_synthetic_data :: "('m, 's, 'r) env \<Rightarrow> int \<Rightarrow> int \<Rightarrow> (matrix \<times> labels) py" where
  "create_synthetic_data E n_samples n_features =
     py_bind (logger_info (''Creating synthetic dataset with '' @ str_int n_samples
                @ '' samples and '' @ str_int n_features @ '' features''))
     (\<lambda>_. py_bind (py_random (make_classification E n_samples n_features 15 5 (Some 42)))
     (\<lambda>(X, y). py_return (X, y)))"

text \<open>The two methods the script calls on its \<^verbatim>\<open>StandardScaler()\<close> object.\<close>

definition scaler_fit_transform :: "('m, 's, 'r) env \<Rightarrow> 's scaler \<Rightarrow> matrix \<Rightarrow> ('s scaler \<times> matrix) py" where
  "scaler_fit_transform E sc X w =
     (let w' = w\<lparr>scaler_calls := scaler_calls w @ [FitTransform X]\<rparr>
      in case fit_transform E X of
           Inl e \<Rightarrow> (Inl e, w')
         | Inr (s, Xs) \<Rightarrow> (Inr (Fitted s, Xs), w'))"

definition scaler_transform :: "('m, 's, 'r) env \<Rightarrow> 's scaler \<Rightarrow> matrix \<Rightarrow> matrix py" where
  "scaler_transform E sc X w =
     (let w' = w\<lparr>scaler_calls := scaler_calls w @ [Transform X]\<rparr>
      in case sc of
           Unfitted \<Rightarrow> (Inl (PyExc NotFittedError ''This StandardScaler instance is not fitted yet.''), w')
         | Fitted s \<Rightarrow> (transform E s X, w'))"

text \<open>
  \<^verbatim>\<open>preprocess_data(X, y)\<close>: \<^verbatim>\<open>train_test_split(X, y, test_size=0.2, random_state=42,
  stratify=y)\<close>, then a new scaler, \<^verbatim>\<open>fit_transform(X_train)\<close> and
  \<^verbatim>\<open>transform(X_test)\<close>.
\<close>

definition preprocess_data ::
  "('m, 's, 'r) env \<Rightarrow> matrix \<Rightarrow> labels \<Rightarrow> (matrix \<times> matrix \<times> labels \<times> labels \<times> 's scaler) py" where
  "preprocess_data E X y =
     py_bind (logger_info ''Splitting data into train/test sets'')
     (\<lambda>_. py_bind (py_random (train_test_split E X y (2 / 10) (Some 42) (Some y)))
     (\<lambda>(X_train, X_test, y_train, y_test). py_bind (logger_info ''Scaling features'')
     (\<lambda>_. py_bind (scaler_fit_transform E Unfitted X_train)
     (\<lambda>(scaler, X_train_scaled). py_bind (scaler_transform E scaler X_test)
     (\<lambda>X_test_scaled. py_return (X_train_scaled, X_test_scaled, y_train, y_test, scaler))))))"

text \<open>
  \<^verbatim>\<open>train_model(X_train, y_train)\<close>: a forest with \<^verbatim>\<open>n_estimators=100, max_depth=10,
  random_state=42, n_jobs=-1\<close>, fitted on the training subset.
\<close>

definition train_model :: "('m, 's, 'r) env \<Rightarrow> matrix \<Rightarrow> labels \<Rightarrow> 'm py" where
  "train_model E X_train y_train =
     py_bind (logger_info ''Training Random Forest model'')
     (\<lambda>_. py_bind (py_random (rf_fit E \<lparr>n_estimators = 100, max_depth = 10, random_state = Some 42, n_jobs = - 1\<rparr>
                      X_train y_train))
     (\<lambda>model. py_bind (logger_info ''Model training completed'')
     (\<lambda>_. py_return model)))"

text \<open>
  \<^verbatim>\<open>evaluate_model(model, X_test, y_test)\<close>: predictions, their accuracy, one log record,
  and the metrics dictionary, whose three values are computed in the order written.
\<close>

definition evaluate_model :: "('m, 's, 'r) env \<Rightarrow> 'm \<Rightarrow> matrix \<Rightarrow> labels \<Rightarrow> 'r metrics py" where
  "evaluate_model E model X_test y_test =
     py_bind (logger_info ''Evaluating model performance'')
     (\<lambda>_. py_bind (py_pure (predict E model X_test))
     (\<lambda>y_pred. py_bind (py_pure (accuracy_score E y_test y_pred))
     (\<lambda>acc. py_bind (logger_info (''Test accuracy: '' @ format_4f E acc))
     (\<lambda>_. py_bind (py_pure (classification_report E y_test y_pred))
     (\<lambda>report. py_bind (datetime_now E)
     (\<lambda>t. py_return \<lparr>accuracy = acc, classification_report_of = report, timestamp = isoformat E t\<rparr>))))))"

text \<open>
  \<^verbatim>\<open>save_model_and_artifacts(model, scaler, metrics, model_name)\<close>: the directory
  \<^verbatim>\<open>models\<close> beside the script's directory, one reading of the clock, three paths, three
  files written one after the other.
\<close>

definition models_dir :: "('m, 's, 'r) env \<Rightarrow> string" where
  "models_dir E = os_path_join (os_path_dirname (os_path_dirname (script_file E))) ''models''"

definition save_model_and_artifacts ::
  "('m, 's, 'r) env \<Rightarrow> 'm \<Rightarrow> 's scaler \<Rightarrow> 'r metrics \<Rightarrow> string \<Rightarrow> string py" where
  "save_model_and_artifacts E model scaler metrics model_name =
     py_bind (os_makedirs E (models_dir E))
     (\<lambda>_. py_bind (datetime_now E)
     (\<lambda>t. let ts = strftime E t;
              model_path = os_path_join (models_dir E) (model_name @ ''_'' @ ts @ ''.pkl'');
              scaler_path = os_path_join (models_dir E) (model_name @ ''_scaler_'' @ ts @ ''.pkl'');
              metrics_path = os_path_join (models_dir E) (model_name @ ''_metrics_'' @ ts @ ''.json'')
          in py_bind (logger_info (''Saving model to '' @ model_path))
     (\<lambda>_. py_bind (open_w E model_path)
     (\<lambda>_. py_bind (dump E (pickle_dumps_model E model) model_path)
     (\<lambda>_. py_bind (logger_info (''Saving scaler to '' @ scaler_path))
     (\<lambda>_. py_bind (open_w E scaler_path)
     (\<lambda>_. py_bind (dump E (pickle_dumps_scaler E scaler) scaler_path)
     (\<lambda>_. py_bind (logger_info (''Saving metrics to '' @ metrics_path))
     (\<lambda>_. py_bind (open_w E metrics_path)
     (\<lambda>_. py_bind (dump E (json_dumps E metrics) metrics_path)
     (\<lambda>_. py_return model_path)))))))))))"

subsection \<open>The driver\<close>

text \<open>
  The body of \<^verbatim>\<open>main\<close>'s \<^verbatim>\<open>try\<close> block, with the sample and feature counts and the
  default model name the script fixes.
\<close>

definition main_try :: "('m, 's, 'r) env \<Rightarrow> unit py" where
  "main_try E =
     py_bind (create_synthetic_data E 1000 20)
     (\<lambda>(X, y). py_bind (preprocess_data E X y)
     (\<lambda>(X_train, X_test, y_train, y_test, scaler). py_bind (train_model E X_train y_train)
     (\<lambda>model. py_bind (evaluate_model E model X_test y_test)
     (\<lambda>metrics. py_bind (save_model_and_artifacts E model scaler metrics ''random_forest_model'')
     (\<lambda>model_path. py_bind (logger_info ''Training pipeline completed successfully!'')
     (\<lambda>_. py_bind (logger_info (''Model saved to: '' @ model_path))
     (\<lambda>_. logger_info (''Final accuracy: '' @ format_4f E (accuracy metrics)))))))))"

text \<open>
  \<^verbatim>\<open>main()\<close> logs that it starts (\<open>started\<close> is the world after that record), runs the
  \<^verbatim>\<open>try\<close> block, and either returns or leaves through \<^verbatim>\<open>sys.exit(1)\<close>, after logging
  the exception it caught.
\<close>

datatype outcome = Returned | SysExit int

definition started :: "world \<Rightarrow> world" where
  "started w = snd (logger_info ''Starting ML training pipeline'' w)"

definition main :: "('m, 's, 'r) env \<Rightarrow> world \<Rightarrow> outcome \<times> world" where
  "main E w =
     (case main_try E (started w) of
        (Inr _, w') \<Rightarrow> (Returned, w')
      | (Inl e, w') \<Rightarrow> (SysExit 1, snd (logger_error (''Training pipeline failed: '' @ exc_str e) w')))"

text \<open>
  The script run as a program (\<^verbatim>\<open>if __name__ == "__main__": main()\<close>): the exit status
  of the process and the world it leaves.
\<close>

definition exit_status :: "('m, 's, 'r) env \<Rightarrow> world \<Rightarrow> int \<times> world" where
  "exit_status E w = (case main E w of (Returned, w') \<Rightarrow> (0, w') | (SysExit n, w') \<Rightarrow> (n, w'))"

subsection \<open>A run, stage by stage\<close>

text \<open>
  For the statements about the driver: the five stages applied one after the other to the
  data the driver passes along, each at most once, stopping at the first one that raises.
  \<open>Failed s e\<close>: stage \<open>s\<close> raised \<open>e\<close>; \<open>Done\<close>: all five returned.
\<close>

datatype stage = Generate | Preprocess | Train | Evaluate | Persist

datatype run = Done | Failed stage pyexc

definition stages :: "('m, 's, 'r) env \<Rightarrow> world \<Rightarrow> run" where
  "stages E w =
     (case create_synthetic_data E 1000 20 w of
        (Inl e, w1) \<Rightarrow> Failed Generate e
      | (Inr (X, y), w1) \<Rightarrow>
     (case preprocess_data E X y w1 of
        (Inl e, w2) \<Rightarrow> Failed Preprocess e
      | (Inr (X_train, X_test, y_train, y_test, scaler), w2) \<Rightarrow>
     (case train_model E X_train y_train w2 of
        (Inl e, w3) \<Rightarrow> Failed Train e
      | (Inr model, w3) \<Rightarrow>
     (case evaluate_model E model X_test y_test w3 of
        (Inl e, w4) \<Rightarrow> Failed Evaluate e
      | (Inr metrics, w4) \<Rightarrow>
     (case save_model_and_artifacts E model scaler metrics ''random_forest_model'' w4 of
        (Inl e, w5) \<Rightarrow> Failed Persist e
      | (Inr model_path, w5) \<Rightarrow> Done)))))"

subsection \<open>What the script relies on from scikit-learn\<close>

text \<open>
  The script validates nothing itself; the statements below that speak of a rejected
  argument or of a reproducible result name the library behaviour they rest on as one of
  these predicates on \<open>env\<close>.

  \<open>honours_seed\<close>: a call of \<^verbatim>\<open>make_classification\<close> that is given an integer
  \<^verbatim>\<open>random_state\<close> draws from a generator seeded with it, so its result does not depend
  on the global generator.

  \<open>checks_feature_budget\<close>: \<^verbatim>\<open>make_classification\<close> raises \<^verbatim>\<open>ValueError\<close> when the
  informative and redundant features together exceed the total.

  \<open>checks_counts\<close>: \<^verbatim>\<open>make_classification\<close> raises \<^verbatim>\<open>ValueError\<close> (its parameter
  validation) when the sample count or the feature count is below one.

  \<open>checks_split_input\<close>: a stratified \<^verbatim>\<open>train_test_split\<close> raises \<^verbatim>\<open>ValueError\<close> when
  the arrays differ in length or a class of the stratification labels has fewer than two
  members.

  \<open>predicts_each_row\<close>: \<^verbatim>\<open>predict\<close> refuses an empty matrix and returns one label for
  each row.

  \<open>scores_matches\<close>: \<^verbatim>\<open>accuracy_score\<close> refuses vectors of different lengths and
  returns the share of positions at which they agree.
\<close>

definition honours_seed :: "('m, 's, 'r) env \<Rightarrow> bool" where
  "honours_seed E \<longleftrightarrow>
     (\<forall>n f i r s g g'. fst (make_classification E n f i r (Some s) g)
                      = fst (make_classification E n f i r (Some s) g'))"

definition checks_feature_budget :: "('m, 's, 'r) env \<Rightarrow> bool" where
  "checks_feature_budget E \<longleftrightarrow>
     (\<forall>n f i r s g. f < i + r \<longrightarrow>
        (\<exists>msg. fst (make_classification E n f i r s g) = Inl (PyExc ValueError msg)))"

definition checks_counts :: "('m, 's, 'r) env \<Rightarrow> bool" where
  "checks_counts E \<longleftrightarrow>
     (\<forall>n f i r s g. n < 1 \<or> f < 1 \<longrightarrow>
        (\<exists>msg. fst (make_classification E n f i r s g) = Inl (PyExc ValueError msg)))"



definition matches :: "labels \<Rightarrow> labels \<Rightarrow> nat" where
  "matches y_true y_pred = length (filter (\<lambda>(a, b). a = b) (zip y_true y_pred))"



subsection \<open>A small executable environment\<close>

text \<open>
  To run the stages on concrete inputs: a deterministic stand-in for each library function
  that validates its arguments as described above and computes something simple. The
  generator fills the matrix from the seed and alternates the labels; the split sends every
  fifth member of a class to the test subset; the scaler centres each column on its mean and
  rejects infinite entries, as scikit-learn's does; the classifier predicts the most frequent
  training label; a float is printed as the fraction it stands for.
\<close>

definition ref_make_classification ::
  "int \<Rightarrow> int \<Rightarrow> int \<Rightarrow> int \<Rightarrow> int option \<Rightarrow> nat \<Rightarrow> (pyexc + matrix \<times> labels) \<times> nat" where
  "ref_make_classification n f i r seed g =
     (if n < 1 \<or> f < 1 then (Inl (PyExc ValueError ''The parameter must be an int in the range [1, inf)''), g)
      else if f < i + r
        then (Inl (PyExc ValueError ''Number of informative, redundant and repeated features must sum to less than the number of total features''), g)
      else (let s = (case seed of Some k \<Rightarrow> k | None \<Rightarrow> int g)
            in (Inr (map (\<lambda>a. map (\<lambda>b. Finite (of_int ((s + 3 * int a + int b * int b) mod 5))) [0..<nat f]) [0..<nat n],
                     map (\<lambda>a. int (a mod 2)) [0..<nat n]),
                case seed of Some k \<Rightarrow> g | None \<Rightarrow> Suc g)))"

definition ref_train_test_split ::
  "matrix \<Rightarrow> labels \<Rightarrow> rat \<Rightarrow> int option \<Rightarrow> labels option \<Rightarrow> nat
    \<Rightarrow> (pyexc + matrix \<times> matrix \<times> labels \<times> labels) \<times> nat" where
  "ref_train_test_split X y test_size seed stratify g =
     (let l = (case stratify of Some l \<Rightarrow> l | None \<Rightarrow> replicate (length y) 0);
          in_test = (\<lambda>a. count_list (take a l) (l ! a) mod 5 = 4);
          test = filter in_test [0..<length y];
          train = filter (\<lambda>a. \<not> in_test a) [0..<length y]
      in if length X \<noteq> length y \<or> length l \<noteq> length y
           then (Inl (PyExc ValueError ''Found input variables with inconsistent numbers of samples''), g)
         else if list_ex (\<lambda>c. count_list l c < 2) l
           then (Inl (PyExc ValueError ''The least populated class in y has only 1 member, which is too few.''), g)
         else if test = [] \<or> train = []
           then (Inl (PyExc ValueError ''The resulting train or test set will be empty.''), g)
         else (Inr (map (\<lambda>a. X ! a) train, map (\<lambda>a. X ! a) test, map (\<lambda>a. y ! a) train, map (\<lambda>a. y ! a) test), g))"

fun infinite_entry :: "pyfloat \<Rightarrow> bool" where
  "infinite_entry PosInf = True"
| "infinite_entry NegInf = True"
| "infinite_entry v = False"

definition column_mean :: "matrix \<Rightarrow> nat \<Rightarrow> rat" where
  "column_mean X j =
     (let vs = concat (map (\<lambda>row. case row ! j of Finite q \<Rightarrow> [q] | _ \<Rightarrow> []) X)
      in sum_list vs / of_nat (max 1 (length vs)))"

fun centre_entry :: "pyfloat \<Rightarrow> rat \<Rightarrow> pyfloat" where
  "centre_entry (Finite q) m = Finite (q - m)"
| "centre_entry v m = v"

definition ref_transform :: "rat list \<Rightarrow> matrix \<Rightarrow> pyexc + matrix" where
  "ref_transform mu X =
     (if X = [] then Inl (PyExc ValueError ''Found array with 0 sample(s)'')
      else if list_ex (list_ex infinite_entry) X then Inl (PyExc ValueError ''Input X contains infinity'')
      else Inr (map (\<lambda>row. map (\<lambda>(v, m). centre_entry v m) (zip row mu)) X))"

definition ref_fit_transform :: "matrix \<Rightarrow> pyexc + rat list \<times> matrix" where
  "ref_fit_transform X =
     (if X = [] then Inl (PyExc ValueError ''Found array with 0 sample(s)'')
      else if list_ex (list_ex infinite_entry) X then Inl (PyExc ValueError ''Input X contains infinity'')
      else (let mu = map (column_mean X) [0..<length (hd X)]
            in case ref_transform mu X of Inl e \<Rightarrow> Inl e | Inr Xs \<Rightarrow> Inr (mu, Xs)))"

definition majority :: "labels \<Rightarrow> int" where
  "majority y = fold (\<lambda>c best. if count_list y best < count_list y c then c else best) y (hd y)"

definition ref_rf_fit :: "rf_params \<Rightarrow> matrix \<Rightarrow> labels \<Rightarrow> nat \<Rightarrow> (pyexc + int) \<times> nat" where
  "ref_rf_fit p X y g =
     (if X = [] \<or> length X \<noteq> length y
      then (Inl (PyExc ValueError ''Found input variables with inconsistent numbers of samples''), g)
      else (Inr (majority y), g))"

definition ref_predict :: "int \<Rightarrow> matrix \<Rightarrow> pyexc + labels" where
  "ref_predict m X =
     (if X = [] then Inl (PyExc ValueError ''Found array with 0 sample(s)'')
      else Inr (replicate (length X) m))"

definition ref_accuracy_score :: "labels \<Rightarrow> labels \<Rightarrow> pyexc + rat" where
  "ref_accuracy_score yt yp =
     (if length yt \<noteq> length yp \<or> yt = []
      then Inl (PyExc ValueError ''Found input variables with inconsistent numbers of samples'')
      else Inr (of_nat (matches yt yp) / of_nat (length yt)))"

definition ref_classification_report :: "labels \<Rightarrow> labels \<Rightarrow> pyexc + (int \<times> nat) list" where
  "ref_classification_report yt yp =
     (if length yt \<noteq> length yp
      then Inl (PyExc ValueError ''Found input variables with inconsistent numbers of samples'')
      else Inr (map (\<lambda>c. (c, count_list yt c)) (remdups yt)))"

definition ref_pickle_dumps_model :: "int \<Rightarrow> pyexc + string" where
  "ref_pickle_dumps_model m = Inr (''forest '' @ str_int m)"

definition ref_pickle_dumps_scaler :: "rat list scaler \<Rightarrow> pyexc + string" where
  "ref_pickle_dumps_scaler sc = Inr ''scaler''"

definition ref_json_dumps :: "(int \<times> nat) list metrics \<Rightarrow> pyexc + string" where
  "ref_json_dumps m = Inr (''metrics '' @ timestamp m)"

definition ref_now_at :: "nat \<Rightarrow> nat" where
  "ref_now_at k = 100 + k"

definition ref_strftime :: "nat \<Rightarrow> string" where
  "ref_strftime t = ''20240101_'' @ str_nat t"

definition ref_format_4f :: "rat \<Rightarrow> string" where
  "ref_format_4f a = (case quotient_of a of (p, q) \<Rightarrow> str_int p @ ''/'' @ str_int q)"

definition never_fails :: "fs_op list \<Rightarrow> string \<Rightarrow> bool" where
  "never_fails ops path = False"

definition ref_env :: "(int, rat list, (int \<times> nat) list) env" where
  "ref_env =
     \<lparr>make_classification = ref_make_classification,
      train_test_split = ref_train_test_split,
      fit_transform = ref_fit_transform,
      transform = ref_transform,
      rf_fit = ref_rf_fit,
      predict = ref_predict,
      accuracy_score = ref_accuracy_score,
      classification_report = ref_classification_report,
      pickle_dumps_model = ref_pickle_dumps_model,
      pickle_dumps_scaler = ref_pickle_dumps_scaler,
      json_dumps = ref_json_dumps,
      now_at = ref_now_at,
      strftime = ref_strftime,
      isoformat = str_nat,
      format_4f = ref_format_4f,
      script_file = ''/repo/src/train.py'',
      makedirs_fails = never_fails,
      open_fails = never_fails,
      write_fails = never_fails\<rparr>"

definition world0 :: world where
  "world0 = \<lparr>logged = [], fs_ops = [], scaler_calls = [], clock_reads = 0, np_random = 7\<rparr>"

subsection \<open>Worked data\<close>

text \<open>
  Ten samples of one feature with alternating labels. The stand-in split sends the last
  member of each class (rows 8 and 9) to the test subset. \<open>demo_X2\<close> has the same training
  rows and other test rows; \<open>demo_X_inf\<close> has an infinite value in its first row.
  \<open>separable_X\<close> has two features and is separated by a threshold on the first.
\<close>

definition demo_X_train :: matrix where
  "demo_X_train = [[Finite 0], [Finite 1], [Finite 2], [Finite 3], [Finite 4], [Finite 5], [Finite 6], [Finite 7]]"

definition demo_X_test :: matrix where
  "demo_X_test = [[Finite 8], [Finite 9]]"

definition demo_X :: matrix where
  "demo_X = demo_X_train @ demo_X_test"

definition demo_X2 :: matrix where
  "demo_X2 = demo_X_train @ [[Finite 100], [Finite 200]]"


definition demo_y :: labels where
  "demo_y = [0, 1, 0, 1, 0, 1, 0, 1, 0, 1]"

definition demo_X_train_scaled :: matrix where
  "demo_X_train_scaled = [[Finite (- 7 / 2)], [Finite (- 5 / 2)], [Finite (- 3 / 2)], [Finite (- 1 / 2)],
                          [Finite (1 / 2)], [Finite (3 / 2)], [Finite (5 / 2)], [Finite (7 / 2)]]"




text \<open>
  To run the driver, whose request for 1000 samples of 20 features is fixed: the stand-in
  environment with a generator that returns the ten-sample dataset whatever is asked of it,
  and, for each stage, that environment with one call of the stage made to raise.
\<close>

definition demo_env :: "(int, rat list, (int \<times> nat) list) env" where
  "demo_env = ref_env\<lparr>make_classification := (\<lambda>n f i r seed g. (Inr (demo_X, demo_y), g))\<rparr>"

fun fail_env :: "stage \<Rightarrow> (int, rat list, (int \<times> nat) list) env" where
  "fail_env Generate = demo_env\<lparr>make_classification := (\<lambda>n f i r s g. (Inl (PyExc MemoryError ''out of memory''), g))\<rparr>"
| "fail_env Preprocess = demo_env\<lparr>fit_transform := (\<lambda>X. Inl (PyExc MemoryError ''out of memory''))\<rparr>"
| "fail_env Train = demo_env\<lparr>rf_fit := (\<lambda>p X y g. (Inl (PyExc MemoryError ''out of memory''), g))\<rparr>"
| "fail_env Evaluate = demo_env\<lparr>predict := (\<lambda>m X. Inl (PyExc MemoryError ''out of memory''))\<rparr>"
| "fail_env Persist = demo_env\<lparr>open_fails := (\<lambda>ops path. True)\<rparr>"

section \<open>Properties\<close>

subsection \<open>Unfolding the stages\<close>

lemmas py_defs = py_bind_def py_return_def py_pure_def py_random_def logger_info_def
  logger_error_def datetime_now_def

lemma create_synthetic_data_result:
  "fst (create_synthetic_data E n f w) = fst (make_classification E n f 15 5 (Some 42) (np_random w))"
  by (simp add: create_synthetic_data_def py_defs split: prod.splits sum.splits)

lemma preprocess_data_unfold:
  "preprocess_data E X y w =
     (let w1 = w\<lparr>logged := logged w @ [(INFO, ''Splitting data into train/test sets'')]\<rparr>
      in case train_test_split E X y (2 / 10) (Some 42) (Some y) (np_random w) of
        (Inl e, g) \<Rightarrow> (Inl e, w1\<lparr>np_random := g\<rparr>)
      | (Inr (X_train, X_test, y_train, y_test), g) \<Rightarrow>
          (let w2 = w1\<lparr>np_random := g, logged := logged w1 @ [(INFO, ''Scaling features'')],
                       scaler_calls := scaler_calls w @ [FitTransform X_train]\<rparr>
           in case fit_transform E X_train of
                Inl e \<Rightarrow> (Inl e, w2)
              | Inr (s, X_train_scaled) \<Rightarrow>
                  (let w3 = w2\<lparr>scaler_calls := scaler_calls w @ [FitTransform X_train, Transform X_test]\<rparr>
                   in case transform E s X_test of
                        Inl e \<Rightarrow> (Inl e, w3)
                      | Inr X_test_scaled \<Rightarrow> (Inr (X_train_scaled, X_test_scaled, y_train, y_test, Fitted s), w3))))"
  by (simp add: preprocess_data_def scaler_fit_transform_def scaler_transform_def py_defs Let_def
      split: prod.split sum.split)



lemma preprocess_data_success:
  assumes "preprocess_data E X y w = (Inr (a, b, c, d, sc), w')"
  shows "\<exists>X_train X_test s g.
           train_test_split E X y (2 / 10) (Some 42) (Some y) (np_random w) = (Inr (X_train, X_test, c, d), g)
           \<and> fit_transform E X_train = Inr (s, a) \<and> transform E s X_test = Inr b \<and> sc = Fitted s
           \<and> scaler_calls w' = scaler_calls w @ [FitTransform X_train, Transform X_test]"
  using assms unfolding preprocess_data_unfold
  by (auto simp add: Let_def split: prod.splits sum.splits)





subsection \<open>No stage before the last touches the file system\<close>

lemma create_synthetic_data_fs: "fs_ops (snd (create_synthetic_data E n f w)) = fs_ops w"
  by (simp add: create_synthetic_data_def py_defs split: prod.splits sum.splits)

lemma preprocess_data_fs: "fs_ops (snd (preprocess_data E X y w)) = fs_ops w"
  by (simp add: preprocess_data_unfold Let_def split: prod.splits sum.splits)

lemma train_model_fs: "fs_ops (snd (train_model E X y w)) = fs_ops w"
  by (simp add: train_model_def py_defs split: prod.splits sum.splits)

lemma evaluate_model_fs: "fs_ops (snd (evaluate_model E m X y w)) = fs_ops w"
  by (simp add: evaluate_model_def py_defs split: prod.splits sum.splits)

lemma create_synthetic_data_fsD:
  "create_synthetic_data E n f w = (r, w') \<Longrightarrow> fs_ops w' = fs_ops w"
  using create_synthetic_data_fs [of E n f w] by simp

lemma preprocess_data_fsD:
  "preprocess_data E X y w = (r, w') \<Longrightarrow> fs_ops w' = fs_ops w"
  using preprocess_data_fs [of E X y w] by simp

lemma train_model_fsD:
  "train_model E X y w = (r, w') \<Longrightarrow> fs_ops w' = fs_ops w"
  using train_model_fs [of E X y w] by simp

lemma evaluate_model_fsD:
  "evaluate_model E m X y w = (r, w') \<Longrightarrow> fs_ops w' = fs_ops w"
  using evaluate_model_fs [of E m X y w] by simp

lemma main_try_fs:
  "case stages E w of Done \<Rightarrow> True
   | Failed s e \<Rightarrow> s = Persist \<or> fs_ops (snd (main_try E w)) = fs_ops w"
  by (auto simp add: main_try_def stages_def py_bind_def split: prod.split sum.split
      dest!: create_synthetic_data_fsD preprocess_data_fsD train_model_fsD evaluate_model_fsD)

lemma exit_status_fs:
  "fs_ops (snd (exit_status E w)) = fs_ops (snd (main_try E (started w)))"
  by (simp add: exit_status_def main_def logger_error_def
      split: prod.split sum.split outcome.split)

subsection \<open>Paths and label counts\<close>





subsection \<open>The stand-in environment on the worked data\<close>

lemma ref_env_sel:
  "make_classification ref_env = ref_make_classification"
  "train_test_split ref_env = ref_train_test_split"
  "fit_transform ref_env = ref_fit_transform"
  "transform ref_env = ref_transform"
  "rf_fit ref_env = ref_rf_fit"
  "predict ref_env = ref_predict"
  "accuracy_score ref_env = ref_accuracy_score"
  "classification_report ref_env = ref_classification_report"
  "pickle_dumps_model ref_env = ref_pickle_dumps_model"
  "pickle_dumps_scaler ref_env = ref_pickle_dumps_scaler"
  "json_dumps ref_env = ref_json_dumps"
  "now_at ref_env = ref_now_at"
  "strftime ref_env = ref_strftime"
  "isoformat ref_env = str_nat"
  "format_4f ref_env = ref_format_4f"
  "script_file ref_env = ''/repo/src/train.py''"
  "makedirs_fails ref_env = never_fails"
  "open_fails ref_env = never_fails"
  "write_fails ref_env = never_fails"
  by (simp_all add: ref_env_def)

lemma world0_sel:
  "logged world0 = []" "fs_ops world0 = []" "scaler_calls world0 = []" "clock_reads world0 = 0"
  "np_random world0 = 7"
  by (simp_all add: world0_def)

lemma ref_honours_seed: "honours_seed ref_env"
  by (simp add: honours_seed_def ref_env_sel ref_make_classification_def)

lemma ref_checks_feature_budget: "checks_feature_budget ref_env"
  by (simp add: checks_feature_budget_def ref_env_sel ref_make_classification_def)

lemma ref_checks_counts: "checks_counts ref_env"
  by (auto simp add: checks_counts_def ref_env_sel ref_make_classification_def)




lemma ref_generates_4_20: "\<not> isl (fst (create_synthetic_data ref_env 4 20 w))"
  by (simp add: create_synthetic_data_result ref_env_sel ref_make_classification_def Let_def)

lemma ref_generator_1000_10:
  "fst (create_synthetic_data ref_env 1000 10 world0)
     = Inl (PyExc ValueError ''Number of informative, redundant and repeated features must sum to less than the number of total features'')"
  by (simp add: create_synthetic_data_result ref_env_sel ref_make_classification_def)





lemma demo_split:
  "ref_train_test_split demo_X demo_y ts seed (Some demo_y) g
     = (Inr (demo_X_train, demo_X_test, [0, 1, 0, 1, 0, 1, 0, 1], [0, 1]), g)"
  by code_simp

lemma demo_split2:
  "ref_train_test_split demo_X2 demo_y ts seed (Some demo_y) g
     = (Inr (demo_X_train, [[Finite 100], [Finite 200]], [0, 1, 0, 1, 0, 1, 0, 1], [0, 1]), g)"
  by code_simp




lemma demo_fit_transform:
  "ref_fit_transform demo_X_train = Inr ([7 / 2], demo_X_train_scaled)"
  by code_simp

lemma demo_transform:
  "ref_transform [7 / 2] demo_X_test = Inr [[Finite (9 / 2)], [Finite (11 / 2)]]"
  by code_simp

lemma demo_transform2:
  "ref_transform [7 / 2] [[Finite 100], [Finite 200]] = Inr [[Finite (193 / 2)], [Finite (393 / 2)]]"
  by code_simp

lemma demo_rf_fit:
  "ref_rf_fit p demo_X_train_scaled [0, 1, 0, 1, 0, 1, 0, 1] g = (Inr 0, g)"
  by code_simp










lemma demo_create:
  "make_classification E = (\<lambda>n f i r seed g. (Inr (demo_X, demo_y), g)) \<Longrightarrow>
   create_synthetic_data E n f w = (Inr (demo_X, demo_y),
     w\<lparr>logged := logged w @ [(INFO, ''Creating synthetic dataset with '' @ str_int n
                @ '' samples and '' @ str_int f @ '' features'')]\<rparr>)"
  by (simp add: create_synthetic_data_def py_defs)

lemma demo_preprocess:
  "train_test_split E = ref_train_test_split \<Longrightarrow> fit_transform E = ref_fit_transform \<Longrightarrow>
   transform E = ref_transform \<Longrightarrow>
   preprocess_data E demo_X demo_y w =
     (Inr (demo_X_train_scaled, [[Finite (9 / 2)], [Finite (11 / 2)]], [0, 1, 0, 1, 0, 1, 0, 1], [0, 1], Fitted [7 / 2]),
      w\<lparr>logged := logged w @ [(INFO, ''Splitting data into train/test sets''), (INFO, ''Scaling features'')],
        scaler_calls := scaler_calls w @ [FitTransform demo_X_train, Transform demo_X_test]\<rparr>)"
  by (simp add: preprocess_data_unfold demo_split demo_fit_transform demo_transform)

lemma demo_preprocess2:
  "preprocess_data ref_env demo_X2 demo_y w =
     (Inr (demo_X_train_scaled, [[Finite (193 / 2)], [Finite (393 / 2)]], [0, 1, 0, 1, 0, 1, 0, 1], [0, 1], Fitted [7 / 2]),
      w\<lparr>logged := logged w @ [(INFO, ''Splitting data into train/test sets''), (INFO, ''Scaling features'')],
        scaler_calls := scaler_calls w @ [FitTransform demo_X_train, Transform [[Finite 100], [Finite 200]]]\<rparr>)"
  by (simp add: preprocess_data_unfold ref_env_sel demo_split2 demo_fit_transform demo_transform2)


lemma demo_train:
  "rf_fit E = ref_rf_fit \<Longrightarrow>
   train_model E demo_X_train_scaled [0, 1, 0, 1, 0, 1, 0, 1] w =
     (Inr 0, w\<lparr>logged := logged w @ [(INFO, ''Training Random Forest model''), (INFO, ''Model training completed'')]\<rparr>)"
  by (simp add: train_model_def py_defs demo_rf_fit)









lemma run_fails_evaluate:
  "stages (fail_env Evaluate) (started world0) = Failed Evaluate (PyExc MemoryError ''out of memory'')"
  by (simp add: stages_def demo_create demo_preprocess demo_train demo_env_def ref_env_sel
      evaluate_model_def py_defs)


section \<open>The claims\<close>

subsection \<open>The Data Generator\<close>

text \<open>
  C1. Two invocations of \<^verbatim>\<open>create_synthetic_data\<close> with the same sample count and feature
  count produce the same sample matrix and the same label vector (or raise the same
  exception), whatever the state of the process at each invocation, its global random
  generator included: the script passes the constant seed 42, and a library that honours a
  given seed then returns one result.
\<close>

theorem generator_deterministic:
  "honours_seed E \<Longrightarrow> fst (create_synthetic_data E n f w1) = fst (create_synthetic_data E n f w2)"
  unfolding create_synthetic_data_result honours_seed_def by blast

text \<open>The stand-in generator, from two different process states.\<close>

theorem generator_deterministic_witness:
  "honours_seed ref_env
   \<and> fst (create_synthetic_data ref_env 4 20 world0)
       = fst (create_synthetic_data ref_env 4 20 (world0\<lparr>clock_reads := 5, np_random := 99\<rparr>))
   \<and> \<not> isl (fst (create_synthetic_data ref_env 4 20 world0))"
  using generator_deterministic [OF ref_honours_seed, of 4 20 world0 "world0\<lparr>clock_reads := 5, np_random := 99\<rparr>"]
        ref_honours_seed ref_generates_4_20 [of world0]
  by simp

text \<open>
  C9. \<^verbatim>\<open>create_synthetic_data\<close> passes 15 informative and 5 redundant features to
  \<^verbatim>\<open>make_classification\<close> whatever its feature-count argument is, and returns or raises
  what that call does. With a library that rejects a feature budget above the total, every
  call with a feature count below 20 therefore raises \<^verbatim>\<open>ValueError\<close>, and a call that
  completes without error has a feature count of at least 20.
\<close>

theorem generator_feature_budget:
  "checks_feature_budget E \<Longrightarrow>
     fst (create_synthetic_data E n f w) = fst (make_classification E n f 15 5 (Some 42) (np_random w))
     \<and> (f < 20 \<longrightarrow> (\<exists>msg. fst (create_synthetic_data E n f w) = Inl (PyExc ValueError msg)))
     \<and> (\<not> isl (fst (create_synthetic_data E n f w)) \<longrightarrow> 20 \<le> f)"
proof -
  assume c: "checks_feature_budget E"
  have r: "fst (create_synthetic_data E n f w) = fst (make_classification E n f 15 5 (Some 42) (np_random w))"
    by (rule create_synthetic_data_result)
  have low: "\<exists>msg. fst (create_synthetic_data E n f w) = Inl (PyExc ValueError msg)" if "f < 20"
    using c that unfolding checks_feature_budget_def r by simp
  have "20 \<le> f" if "\<not> isl (fst (create_synthetic_data E n f w))"
  proof (rule ccontr)
    assume "\<not> 20 \<le> f"
    then have "f < 20" by simp
    from low [OF this] that show False by auto
  qed
  with r low show ?thesis by blast
qed

text \<open>Ten features are refused, twenty are accepted.\<close>

theorem generator_feature_budget_witness:
  "checks_feature_budget ref_env
   \<and> (10::int) < 20 \<and> (\<exists>msg. fst (create_synthetic_data ref_env 4 10 world0) = Inl (PyExc ValueError msg))
   \<and> \<not> isl (fst (create_synthetic_data ref_env 4 20 world0)) \<and> (20::int) \<le> 20"
proof -
  have small: "(10::int) < 20" by simp
  with generator_feature_budget [OF ref_checks_feature_budget, of 4 10 world0]
  have fails: "\<exists>msg. fst (create_synthetic_data ref_env 4 10 world0) = Inl (PyExc ValueError msg)"
    by blast
  have ok: "\<not> isl (fst (create_synthetic_data ref_env 4 20 world0))"
    by (rule ref_generates_4_20)
  with generator_feature_budget [OF ref_checks_feature_budget, of 4 20 world0]
  have "(20::int) \<le> 20" by blast
  with small fails ok ref_checks_feature_budget show ?thesis by blast
qed

text \<open>
  C4, as amended. \<^verbatim>\<open>create_synthetic_data\<close> has no check and no error of its own: for
  every input it returns or raises exactly what \<^verbatim>\<open>make_classification(n_samples,
  n_features, n_informative=15, n_redundant=5, random_state=42)\<close> returns or raises, and it
  performs no file-system operation, so no artifact is written whether it fails or not.
  With a library that validates the two counts and the feature budget, a non-positive
  sample count or feature count raises \<^verbatim>\<open>ValueError\<close> (the error kind the specification
  calls InvalidArgument), and so does every feature count below 20, positive ones included.
\<close>

theorem generator_rejects_bad_counts:
  "checks_counts E \<Longrightarrow> checks_feature_budget E \<Longrightarrow>
     (n \<le> 0 \<or> f \<le> 0 \<longrightarrow> (\<exists>msg. fst (create_synthetic_data E n f w) = Inl (PyExc ValueError msg)))
     \<and> (f < 20 \<longrightarrow> (\<exists>msg. fst (create_synthetic_data E n f w) = Inl (PyExc ValueError msg)))
     \<and> fs_ops (snd (create_synthetic_data E n f w)) = fs_ops w
     \<and> fst (create_synthetic_data E n f w) = fst (make_classification E n f 15 5 (Some 42) (np_random w))"
proof -
  assume c: "checks_counts E" and b: "checks_feature_budget E"
  have "\<exists>msg. fst (create_synthetic_data E n f w) = Inl (PyExc ValueError msg)" if "n \<le> 0 \<or> f \<le> 0"
  proof -
    from that have "n < 1 \<or> f < 1" by auto
    with c show ?thesis unfolding checks_counts_def create_synthetic_data_result by blast
  qed
  moreover have "\<exists>msg. fst (create_synthetic_data E n f w) = Inl (PyExc ValueError msg)" if "f < 20"
    using b that unfolding checks_feature_budget_def create_synthetic_data_result by simp
  ultimately show ?thesis
    using create_synthetic_data_fs [of E n f w] create_synthetic_data_result [of E n f w] by blast
qed

text \<open>A sample count of 0 is refused, and nothing is written.\<close>

theorem generator_rejects_bad_counts_witness:
  "checks_counts ref_env \<and> checks_feature_budget ref_env \<and> (0::int) \<le> 0
   \<and> (\<exists>msg. fst (create_synthetic_data ref_env 0 20 world0) = Inl (PyExc ValueError msg))
   \<and> (10::int) < 20
   \<and> (\<exists>msg. fst (create_synthetic_data ref_env 1000 10 world0) = Inl (PyExc ValueError msg))
   \<and> fs_ops (snd (create_synthetic_data ref_env 0 20 world0)) = fs_ops world0"
proof -
  have z: "(0::int) \<le> 0 \<or> (20::int) \<le> 0" by simp
  have t: "(10::int) < 20" by simp
  from z generator_rejects_bad_counts [OF ref_checks_counts ref_checks_feature_budget, of 0 20 world0]
  have a: "(\<exists>msg. fst (create_synthetic_data ref_env 0 20 world0) = Inl (PyExc ValueError msg))
     \<and> fs_ops (snd (create_synthetic_data ref_env 0 20 world0)) = fs_ops world0"
    by blast
  from t generator_rejects_bad_counts [OF ref_checks_counts ref_checks_feature_budget, of 1000 10 world0]
  have b: "\<exists>msg. fst (create_synthetic_data ref_env 1000 10 world0) = Inl (PyExc ValueError msg)"
    by blast
  from a b t ref_checks_counts ref_checks_feature_budget show ?thesis by simp
qed

text \<open>
  C4 as first stated also says that no error occurs for any positive sample count and
  feature count. A request for 1000 samples of 10 features is positive in both and raises:
  15 informative and 5 redundant features do not fit into 10.
\<close>

theorem generator_positive_counts_counterexample:
  "checks_counts ref_env \<and> checks_feature_budget ref_env \<and> (0::int) < 1000 \<and> (0::int) < 10
   \<and> fst (create_synthetic_data ref_env 1000 10 world0)
       = Inl (PyExc ValueError ''Number of informative, redundant and repeated features must sum to less than the number of total features'')"
  using ref_generator_1000_10 ref_checks_counts ref_checks_feature_budget by simp

subsection \<open>The Preprocessor\<close>

text \<open>
  C3. In every successful run of \<^verbatim>\<open>preprocess_data\<close> the scaler it returns holds the
  statistics that \<^verbatim>\<open>fit_transform\<close> computed from the training subset of the split; the
  calls made on the scaler are one \<^verbatim>\<open>fit_transform\<close> on the training subset followed by
  one \<^verbatim>\<open>transform\<close> on the test subset, so it is fitted exactly once, before any
  transform, and never on test data; and a second run whose split has the same training
  subset returns the same scaler and the same scaled training matrix, whatever its test
  subset is.
\<close>

theorem scaler_fitted_on_training_subset:
  assumes "preprocess_data E X y w = (Inr (a, b, c, d, sc), w')"
    and "fst (train_test_split E X y (2 / 10) (Some 42) (Some y) (np_random w)) = Inr (X_train, X_test, y_train, y_test)"
    and "preprocess_data E X' y' v = (Inr (a', b', c', d', sc'), v')"
    and "fst (train_test_split E X' y' (2 / 10) (Some 42) (Some y') (np_random v)) = Inr (X_train, X_test', y_train', y_test')"
  shows "(\<exists>s. sc = Fitted s \<and> fit_transform E X_train = Inr (s, a))
         \<and> scaler_calls w' = scaler_calls w @ [FitTransform X_train, Transform X_test]
         \<and> sc' = sc \<and> a' = a"
  using preprocess_data_success [OF assms(1)] preprocess_data_success [OF assms(3)] assms(2,4)
  by auto

text \<open>
  Two datasets with the same eight training rows and different test rows: the scaler is
  centred on 7/2 in both runs.
\<close>

theorem scaler_fitted_on_training_subset_witness:
  "fst (preprocess_data ref_env demo_X demo_y world0)
     = Inr (demo_X_train_scaled, [[Finite (9 / 2)], [Finite (11 / 2)]], [0, 1, 0, 1, 0, 1, 0, 1], [0, 1], Fitted [7 / 2])
   \<and> fst (preprocess_data ref_env demo_X2 demo_y world0)
     = Inr (demo_X_train_scaled, [[Finite (193 / 2)], [Finite (393 / 2)]], [0, 1, 0, 1, 0, 1, 0, 1], [0, 1], Fitted [7 / 2])
   \<and> fit_transform ref_env demo_X_train = Inr ([7 / 2], demo_X_train_scaled)
   \<and> scaler_calls (snd (preprocess_data ref_env demo_X demo_y world0)) = [FitTransform demo_X_train, Transform demo_X_test]"
proof -
  have r1: "preprocess_data ref_env demo_X demo_y world0 =
     (Inr (demo_X_train_scaled, [[Finite (9 / 2)], [Finite (11 / 2)]], [0, 1, 0, 1, 0, 1, 0, 1], [0, 1], Fitted [7 / 2]),
      world0\<lparr>logged := logged world0 @ [(INFO, ''Splitting data into train/test sets''), (INFO, ''Scaling features'')],
        scaler_calls := scaler_calls world0 @ [FitTransform demo_X_train, Transform demo_X_test]\<rparr>)"
    by (rule demo_preprocess) (simp_all add: ref_env_sel)
  have s1: "fst (train_test_split ref_env demo_X demo_y (2 / 10) (Some 42) (Some demo_y) (np_random world0))
     = Inr (demo_X_train, demo_X_test, [0, 1, 0, 1, 0, 1, 0, 1], [0, 1])"
    by (simp add: ref_env_sel demo_split)
  have s2: "fst (train_test_split ref_env demo_X2 demo_y (2 / 10) (Some 42) (Some demo_y) (np_random world0))
     = Inr (demo_X_train, [[Finite 100], [Finite 200]], [0, 1, 0, 1, 0, 1, 0, 1], [0, 1])"
    by (simp add: ref_env_sel demo_split2)
  from scaler_fitted_on_training_subset [OF r1 s1 demo_preprocess2 [of world0] s2]
  show ?thesis
    by (simp add: r1 demo_preprocess2 world0_sel)
qed




subsection \<open>The Evaluator\<close>




subsection \<open>The Persister\<close>




subsection \<open>The driver\<close>



text \<open>
  C10. \<^verbatim>\<open>create_synthetic_data\<close>, \<^verbatim>\<open>preprocess_data\<close>, \<^verbatim>\<open>train_model\<close> and
  \<^verbatim>\<open>evaluate_model\<close> perform no file-system operation, whether they return or raise; the
  only stage that does is \<^verbatim>\<open>save_model_and_artifacts\<close>. A run of the program in which a
  stage before persistence raises therefore ends with the file system as it found it.
\<close>

theorem only_persister_writes:
  "fs_ops (snd (create_synthetic_data E n f w)) = fs_ops w
   \<and> fs_ops (snd (preprocess_data E X y w)) = fs_ops w
   \<and> fs_ops (snd (train_model E X_train y_train w)) = fs_ops w
   \<and> fs_ops (snd (evaluate_model E m X_test y_test w)) = fs_ops w
   \<and> (stages E (started w) = Failed s e \<and> s \<noteq> Persist
        \<longrightarrow> fs_ops (snd (exit_status E w)) = fs_ops w)"
proof -
  have "fs_ops (snd (exit_status E w)) = fs_ops w"
    if "stages E (started w) = Failed s e" "s \<noteq> Persist"
    using main_try_fs [of E "started w"] that
    by (simp add: exit_status_fs) (simp add: started_def logger_info_def)
  then show ?thesis
    by (simp add: create_synthetic_data_fs preprocess_data_fs train_model_fs evaluate_model_fs)
qed

text \<open>A run that fails in the Evaluator leaves no file-system operation behind.\<close>

theorem only_persister_writes_witness:
  "stages (fail_env Evaluate) (started world0) = Failed Evaluate (PyExc MemoryError ''out of memory'')
   \<and> Evaluate \<noteq> Persist
   \<and> fs_ops (snd (exit_status (fail_env Evaluate) world0)) = fs_ops world0"
  using only_persister_writes [of "fail_env Evaluate" _ _ world0 _ _ _ _ _ _ _ Evaluate "PyExc MemoryError ''out of memory''"]
  by (simp add: run_fails_evaluate del: fail_env.simps)

end
